theory Spec2Isabelle
  imports Main
begin

section \<open>The prompt runner script \<^verbatim>\<open>run_gemini.py\<close>\<close>

text \<open>
  The script is a straight line of statements: it initialises the Vertex AI client,
  builds a model handle, submits one literal prompt and prints the answer under two
  header lines. It has no \<^verbatim>\<open>try\<close>, no branch and no loop, so the only
  control flow is an exception leaving the module.

  The client library is not part of the repository. It is a parameter of the model: a
  record of the four entry points the script uses, each returning either the exception it
  raises (\<open>Inl\<close>) or its result (\<open>Inr\<close>). The types of the session, of the model
  handle and of the response are left open.
\<close>

subsection \<open>Exceptions and the client library\<close>

text \<open>An exception, identified by the name of its class.\<close>

datatype exn = Exception string

record ('s, 'm, 'r) sdk =
  vertexai_init :: "string \<Rightarrow> string \<Rightarrow> exn + 's"
  GenerativeModel :: "'s \<Rightarrow> string \<Rightarrow> exn + 'm"
  generate_content :: "'m \<Rightarrow> string \<Rightarrow> exn + 'r"
  response_text :: "'r \<Rightarrow> exn + string"

text \<open>
  \<open>vertexai_init project location\<close> is \<^verbatim>\<open>vertexai.init(project=..., location=...)\<close>;
  the session it yields stands for the process-wide state the call leaves behind, which
  the constructor \<^verbatim>\<open>GenerativeModel(name)\<close> reads. \<open>response_text\<close> is the
  property \<^verbatim>\<open>response.text\<close>, which is computed on access and may raise.
\<close>

subsection \<open>The process\<close>

text \<open>
  What an observer of one execution sees: the characters written to standard output, the
  calls made into the client library, in order, and the exception that left the module,
  if any.
\<close>

datatype call = Init string string | SelectModel string | Generate string

record proc =
  stdout :: string
  calls :: "call list"
  uncaught :: "exn option"

definition start :: proc where
  "start = \<lparr>stdout = [], calls = [], uncaught = None\<rparr>"

definition newline :: char where
  "newline = CHR 0x0A"

text \<open>\<^verbatim>\<open>print(s)\<close> for a string \<open>s\<close>: the string itself, then a newline.\<close>

definition print :: "string \<Rightarrow> proc \<Rightarrow> proc" where
  "print s p = p\<lparr>stdout := stdout p @ s @ [newline]\<rparr>"

definition invoke :: "call \<Rightarrow> proc \<Rightarrow> proc" where
  "invoke c p = p\<lparr>calls := calls p @ [c]\<rparr>"

definition raise :: "exn \<Rightarrow> proc \<Rightarrow> proc" where
  "raise e p = p\<lparr>uncaught := Some e\<rparr>"

text \<open>
  The interpreter's exit status: 0 when the module runs to its end, 1 when an exception
  leaves it.
\<close>

definition exit_status :: "proc \<Rightarrow> int" where
  "exit_status p = (case uncaught p of None \<Rightarrow> 0 | Some e \<Rightarrow> 1)"

subsection \<open>The literals of the script\<close>

definition PROJECT_ID :: string where
  "PROJECT_ID = ''optimum-rock-467801-f1''"

definition LOCATION :: string where
  "LOCATION = ''us-central1''"

text \<open>
  The triple-quoted literal: the line break after the opening quotes and the one before
  the closing quotes belong to the string.
\<close>

definition prompt :: string where
  "prompt =
     [newline] @
     ''Write a short, professional email to a client named Alex to confirm the meeting for next Tuesday.'' @
     [newline] @
     ''Mention that you'' @ [CHR 0x27] @ ''re looking forward to discussing the new project.'' @
     [newline]"

subsection \<open>The statements\<close>

text \<open>
  Lines 23 to 25, the output section. The third \<^verbatim>\<open>print\<close> evaluates its argument
  \<^verbatim>\<open>response.text\<close> after the first two have written their lines.
\<close>

definition render :: "('s, 'm, 'r) sdk \<Rightarrow> 'r \<Rightarrow> proc \<Rightarrow> proc" where
  "render lib response p =
     (let p1 = print ''Model Response:'' p;
          p2 = print ''---------------'' p1
      in case response_text lib response of
           Inl e \<Rightarrow> raise e p2
         | Inr t \<Rightarrow> print t p2)"

text \<open>
  The module body, with its four literals as parameters. Each call into the library is
  recorded before its outcome is inspected; an exception ends the run where it is raised.
\<close>

definition script ::
  "('s, 'm, 'r) sdk \<Rightarrow> string \<Rightarrow> string \<Rightarrow> string \<Rightarrow> string \<Rightarrow> proc" where
  "script lib project location model_name prompt_text =
     (let p1 = invoke (Init project location) start in
      case vertexai_init lib project location of
        Inl e \<Rightarrow> raise e p1
      | Inr session \<Rightarrow>
          (let p2 = invoke (SelectModel model_name) p1 in
           case GenerativeModel lib session model_name of
             Inl e \<Rightarrow> raise e p2
           | Inr model \<Rightarrow>
               (let p3 = invoke (Generate prompt_text) p2 in
                case generate_content lib model prompt_text of
                  Inl e \<Rightarrow> raise e p3
                | Inr response \<Rightarrow> render lib response p3)))"

text \<open>The program: the module body at the literals of the source.\<close>

definition run_gemini :: "('s, 'm, 'r) sdk \<Rightarrow> proc" where
  "run_gemini lib = script lib PROJECT_ID LOCATION ''gemini-2.5-pro'' prompt"

text \<open>The prompts submitted during an execution, read off its calls.\<close>

fun prompts_of :: "call list \<Rightarrow> string list" where
  "prompts_of [] = []"
| "prompts_of (Generate q # cs) = q # prompts_of cs"
| "prompts_of (c # cs) = prompts_of cs"

subsection \<open>Mock libraries\<close>

text \<open>
  The scenario of the specification: a library whose every call succeeds and whose model
  answers \<open>Hello!\<close>. The other four fail at one call each.
\<close>

definition hello_lib :: "(unit, string, string) sdk" where
  "hello_lib =
     \<lparr>vertexai_init = (\<lambda>project location. Inr ()),
      GenerativeModel = (\<lambda>session name. Inr name),
      generate_content = (\<lambda>model q. Inr ''Hello!''),
      response_text = (\<lambda>response. Inr response)\<rparr>"

definition no_credentials_lib :: "(unit, string, string) sdk" where
  "no_credentials_lib =
     hello_lib\<lparr>vertexai_init := (\<lambda>project location. Inl (Exception ''AuthenticationError''))\<rparr>"

definition no_model_lib :: "(unit, string, string) sdk" where
  "no_model_lib =
     hello_lib\<lparr>GenerativeModel := (\<lambda>session name. Inl (Exception ''NotFound''))\<rparr>"

definition unreachable_lib :: "(unit, string, string) sdk" where
  "unreachable_lib =
     hello_lib\<lparr>generate_content := (\<lambda>model q. Inl (Exception ''ServiceUnavailable''))\<rparr>"

definition blocked_lib :: "(unit, string, string) sdk" where
  "blocked_lib =
     hello_lib\<lparr>response_text := (\<lambda>response. Inl (Exception ''ValueError''))\<rparr>"

text \<open>
  A library whose model answers with the prompt it was given, and one whose constructor
  only binds the name it is given: there the service knows the single model
  \<open>model-v1\<close> and says so when content is requested.
\<close>

definition echo_lib :: "(unit, string, string) sdk" where
  "echo_lib = hello_lib\<lparr>generate_content := (\<lambda>model q. Inr q)\<rparr>"


subsection \<open>The script in a world that changes\<close>

text \<open>
  A process keeps nothing when it ends; what outlives it is the world outside: the remote
  service, the credentials, the library's caches. Here each entry point of the library
  reads the state of that world and leaves a new one, so an answer may depend on every
  call made before, in this run or in an earlier one.
\<close>

record ('w, 's, 'm, 'r) service =
  init_in :: "string \<Rightarrow> string \<Rightarrow> 'w \<Rightarrow> (exn + 's) \<times> 'w"
  model_in :: "'s \<Rightarrow> string \<Rightarrow> 'w \<Rightarrow> (exn + 'm) \<times> 'w"
  generate_in :: "'m \<Rightarrow> string \<Rightarrow> 'w \<Rightarrow> (exn + 'r) \<times> 'w"
  text_in :: "'r \<Rightarrow> 'w \<Rightarrow> (exn + string) \<times> 'w"

text \<open>Lines 23 to 25 and the module body again, the world passed from call to call.\<close>

definition render_in :: "('w, 's, 'm, 'r) service \<Rightarrow> 'r \<Rightarrow> proc \<Rightarrow> 'w \<Rightarrow> proc \<times> 'w" where
  "render_in svc response p w =
     (let p1 = print ''Model Response:'' p;
          p2 = print ''---------------'' p1
      in case text_in svc response w of
           (Inl e, w') \<Rightarrow> (raise e p2, w')
         | (Inr t, w') \<Rightarrow> (print t p2, w'))"

definition script_in ::
  "('w, 's, 'm, 'r) service \<Rightarrow> string \<Rightarrow> string \<Rightarrow> string \<Rightarrow> string \<Rightarrow> 'w \<Rightarrow> proc \<times> 'w" where
  "script_in svc project location model_name prompt_text w0 =
     (let p1 = invoke (Init project location) start in
      case init_in svc project location w0 of
        (Inl e, w1) \<Rightarrow> (raise e p1, w1)
      | (Inr session, w1) \<Rightarrow>
          (let p2 = invoke (SelectModel model_name) p1 in
           case model_in svc session model_name w1 of
             (Inl e, w2) \<Rightarrow> (raise e p2, w2)
           | (Inr model, w2) \<Rightarrow>
               (let p3 = invoke (Generate prompt_text) p2 in
                case generate_in svc model prompt_text w2 of
                  (Inl e, w3) \<Rightarrow> (raise e p3, w3)
                | (Inr response, w3) \<Rightarrow> render_in svc response p3 w3)))"

text \<open>
  Two executions, one after the other: the second process starts afresh, in the world the
  first one left.
\<close>

definition two_runs ::
  "('w, 's, 'm, 'r) service \<Rightarrow> string \<Rightarrow> string \<Rightarrow> string \<Rightarrow> string \<Rightarrow> 'w \<Rightarrow> proc \<times> proc" where
  "two_runs svc project location model_name prompt_text w0 =
     (let (first, w1) = script_in svc project location model_name prompt_text w0;
          (second, w2) = script_in svc project location model_name prompt_text w1
      in (first, second))"

text \<open>
  The answers a service gives in one state of the world, as a library without state; and
  a library without state as a service that leaves the world as it is.
\<close>

definition answers_at :: "('w, 's, 'm, 'r) service \<Rightarrow> 'w \<Rightarrow> ('s, 'm, 'r) sdk" where
  "answers_at svc w =
     \<lparr>vertexai_init = (\<lambda>project location. fst (init_in svc project location w)),
      GenerativeModel = (\<lambda>session name. fst (model_in svc session name w)),
      generate_content = (\<lambda>model q. fst (generate_in svc model q w)),
      response_text = (\<lambda>response. fst (text_in svc response w))\<rparr>"

definition stateless :: "('s, 'm, 'r) sdk \<Rightarrow> ('w, 's, 'm, 'r) service" where
  "stateless lib =
     \<lparr>init_in = (\<lambda>project location w. (vertexai_init lib project location, w)),
      model_in = (\<lambda>session name w. (GenerativeModel lib session name, w)),
      generate_in = (\<lambda>model q w. (generate_content lib model q, w)),
      text_in = (\<lambda>response w. (response_text lib response, w))\<rparr>"

text \<open>
  A service that counts the requests it has served and always answers \<open>Hello!\<close>, and
  one that answers differently once it has been asked before.
\<close>

definition counting_service :: "(nat, unit, string, string) service" where
  "counting_service =
     \<lparr>init_in = (\<lambda>project location n. (Inr (), Suc n)),
      model_in = (\<lambda>session name n. (Inr name, Suc n)),
      generate_in = (\<lambda>model q n. (Inr ''Hello!'', Suc n)),
      text_in = (\<lambda>response n. (Inr response, n))\<rparr>"

definition remembering_service :: "(nat, unit, string, string) service" where
  "remembering_service =
     counting_service\<lparr>generate_in :=
       (\<lambda>model q n. (Inr (if n < 3 then ''Hello!'' else ''Hello again!''), Suc n))\<rparr>"

section \<open>The five ways an execution can end\<close>

lemmas proc_ops = print_def invoke_def raise_def start_def

lemma script_init_raises:
  "vertexai_init lib project location = Inl e \<Longrightarrow>
   script lib project location name q =
     \<lparr>stdout = [], calls = [Init project location], uncaught = Some e\<rparr>"
  by (simp add: script_def proc_ops)

lemma script_select_raises:
  "vertexai_init lib project location = Inr s \<Longrightarrow>
   GenerativeModel lib s name = Inl e \<Longrightarrow>
   script lib project location name q =
     \<lparr>stdout = [], calls = [Init project location, SelectModel name], uncaught = Some e\<rparr>"
  by (simp add: script_def proc_ops)

lemma script_generate_raises:
  "vertexai_init lib project location = Inr s \<Longrightarrow>
   GenerativeModel lib s name = Inr m \<Longrightarrow>
   generate_content lib m q = Inl e \<Longrightarrow>
   script lib project location name q =
     \<lparr>stdout = [],
      calls = [Init project location, SelectModel name, Generate q],
      uncaught = Some e\<rparr>"
  by (simp add: script_def proc_ops)

lemma script_text_raises:
  "vertexai_init lib project location = Inr s \<Longrightarrow>
   GenerativeModel lib s name = Inr m \<Longrightarrow>
   generate_content lib m q = Inr r \<Longrightarrow>
   response_text lib r = Inl e \<Longrightarrow>
   script lib project location name q =
     \<lparr>stdout = ''Model Response:'' @ [newline] @ ''---------------'' @ [newline],
      calls = [Init project location, SelectModel name, Generate q],
      uncaught = Some e\<rparr>"
  by (simp add: script_def render_def proc_ops)

lemma script_returns:
  "vertexai_init lib project location = Inr s \<Longrightarrow>
   GenerativeModel lib s name = Inr m \<Longrightarrow>
   generate_content lib m q = Inr r \<Longrightarrow>
   response_text lib r = Inr t \<Longrightarrow>
   script lib project location name q =
     \<lparr>stdout = ''Model Response:'' @ [newline] @ ''---------------'' @ [newline] @ t @ [newline],
      calls = [Init project location, SelectModel name, Generate q],
      uncaught = None\<rparr>"
  by (simp add: script_def render_def proc_ops)

text \<open>The calls of an execution, whatever its end.\<close>

lemma script_calls:
  "calls (script lib project location name q) =
     (case vertexai_init lib project location of
        Inl e \<Rightarrow> [Init project location]
      | Inr s \<Rightarrow>
          (case GenerativeModel lib s name of
             Inl e \<Rightarrow> [Init project location, SelectModel name]
           | Inr m \<Rightarrow> [Init project location, SelectModel name, Generate q]))"
proof (cases "vertexai_init lib project location")
  case (Inl e)
  then show ?thesis by (simp add: script_init_raises)
next
  case init: (Inr s)
  show ?thesis
  proof (cases "GenerativeModel lib s name")
    case (Inl e)
    with init show ?thesis by (simp add: script_select_raises)
  next
    case model: (Inr m)
    show ?thesis
    proof (cases "generate_content lib m q")
      case (Inl e)
      with init model show ?thesis by (simp add: script_generate_raises)
    next
      case response: (Inr r)
      show ?thesis
      proof (cases "response_text lib r")
        case (Inl e)
        with init model response show ?thesis by (simp add: script_text_raises)
      next
        case (Inr t)
        with init model response show ?thesis by (simp add: script_returns)
      qed
    qed
  qed
qed

lemma prompt_ends: "prompt \<noteq> [] \<and> hd prompt = newline \<and> last prompt = newline"
  by (simp add: prompt_def)

section \<open>Console output\<close>

text \<open>
  C1. On a successful run, where the response's text field is the string \<open>t\<close>, standard
  output is exactly the line \<open>Model Response:\<close>, the line of fifteen dashes, and then
  \<open>t\<close> itself followed by one newline. Nothing is done to \<open>t\<close>.
\<close>

theorem run_gemini_stdout:
  assumes "vertexai_init lib PROJECT_ID LOCATION = Inr s"
    and "GenerativeModel lib s ''gemini-2.5-pro'' = Inr m"
    and "generate_content lib m prompt = Inr r"
    and "response_text lib r = Inr t"
  shows "uncaught (run_gemini lib) = None \<and>
         stdout (run_gemini lib) =
           ''Model Response:'' @ [newline] @ ''---------------'' @ [newline] @ t @ [newline]"
  using script_returns [OF assms] by (simp add: run_gemini_def)

theorem run_gemini_stdout_witness:
  "uncaught (run_gemini hello_lib) = None \<and>
   stdout (run_gemini hello_lib) =
     ''Model Response:'' @ [newline] @ ''---------------'' @ [newline] @ ''Hello!'' @ [newline]"
  using run_gemini_stdout [of hello_lib "()" "''gemini-2.5-pro''" "''Hello!''" "''Hello!''"]
  by (simp add: hello_lib_def)

text \<open>
  C2, as stated: rendering writes a single header line and then the text. It does not:
  for the response \<open>Hello!\<close> no string \<open>h\<close> free of newlines makes the output
  \<open>h\<close>, a newline, \<open>Hello!\<close>, a newline; what precedes the text is two lines.
\<close>

theorem render_single_header_counterexample:
  "\<not> (\<exists>h. newline \<notin> set h \<and>
         stdout (render hello_lib ''Hello!'' start) = h @ [newline] @ ''Hello!'' @ [newline])"
  by (auto simp add: render_def proc_ops hello_lib_def newline_def
      append_eq_Cons_conv Cons_eq_append_conv)

text \<open>
  C2, amended: rendering appends to standard output the two fixed header lines
  \<open>Model Response:\<close> and \<open>---------------\<close> and then the response's text with a
  closing newline. The text is neither transformed nor validated (any \<open>t\<close> is written
  as it is), and nothing else of the process changes.
\<close>

theorem render_writes:
  "response_text lib response = Inr t \<Longrightarrow>
   render lib response p =
     p\<lparr>stdout := stdout p @ ''Model Response:'' @ [newline] @ ''---------------'' @ [newline]
                  @ t @ [newline]\<rparr>"
  by (simp add: render_def proc_ops)

theorem render_writes_witness:
  "render hello_lib ''Hello!'' start =
     start\<lparr>stdout := stdout start @ ''Model Response:'' @ [newline] @ ''---------------''
                  @ [newline] @ ''Hello!'' @ [newline]\<rparr>"
  using render_writes [of hello_lib "''Hello!''" "''Hello!''" start]
  by (simp add: hello_lib_def)

text \<open>
  C10. When reading \<^verbatim>\<open>response.text\<close> raises, after the generate call has
  returned, the two header lines are already on standard output: the failing run leaves
  exactly the headers there, and ends with that exception and a non-zero status.
\<close>

theorem text_failure_leaves_headers:
  assumes "vertexai_init lib PROJECT_ID LOCATION = Inr s"
    and "GenerativeModel lib s ''gemini-2.5-pro'' = Inr m"
    and "generate_content lib m prompt = Inr r"
    and "response_text lib r = Inl e"
  shows "stdout (run_gemini lib) =
           ''Model Response:'' @ [newline] @ ''---------------'' @ [newline] \<and>
         uncaught (run_gemini lib) = Some e \<and> exit_status (run_gemini lib) \<noteq> 0"
  using script_text_raises [OF assms] by (simp add: run_gemini_def exit_status_def)

theorem text_failure_leaves_headers_witness:
  "stdout (run_gemini blocked_lib) =
     ''Model Response:'' @ [newline] @ ''---------------'' @ [newline] \<and>
   uncaught (run_gemini blocked_lib) = Some (Exception ''ValueError'') \<and>
   exit_status (run_gemini blocked_lib) \<noteq> 0"
  using text_failure_leaves_headers
    [of blocked_lib "()" "''gemini-2.5-pro''" "''Hello!''" "Exception ''ValueError''"]
  by (simp add: blocked_lib_def hello_lib_def)

text \<open>
  C6. When the generate call raises, nothing at all has been written to standard output:
  the run ends with that exception and an empty output.
\<close>

theorem generate_failure_writes_nothing:
  assumes "vertexai_init lib PROJECT_ID LOCATION = Inr s"
    and "GenerativeModel lib s ''gemini-2.5-pro'' = Inr m"
    and "generate_content lib m prompt = Inl e"
  shows "stdout (run_gemini lib) = [] \<and> uncaught (run_gemini lib) = Some e"
  using script_generate_raises [OF assms] by (simp add: run_gemini_def)

theorem generate_failure_writes_nothing_witness:
  "stdout (run_gemini unreachable_lib) = [] \<and>
   uncaught (run_gemini unreachable_lib) = Some (Exception ''ServiceUnavailable'')"
  using generate_failure_writes_nothing
    [of unreachable_lib "()" "''gemini-2.5-pro''" "Exception ''ServiceUnavailable''"]
  by (simp add: unreachable_lib_def hello_lib_def)

section \<open>The calls into the library\<close>

text \<open>
  C3, as stated: every execution invokes generate exactly once. An execution whose model
  constructor raises invokes it not at all.
\<close>

theorem generate_once_counterexample:
  "prompts_of (calls (run_gemini no_model_lib)) = [] \<and>
   length (prompts_of (calls (run_gemini no_model_lib))) \<noteq> 1"
  by (simp add: run_gemini_def script_calls no_model_lib_def hello_lib_def)

text \<open>
  C3, amended: an execution invokes generate at most once; exactly once, with the literal
  prompt, when initialisation and model selection have succeeded, and not at all when one
  of them raises. No history of prompts exists: the prompts an execution submits are the
  literal alone, or nothing.
\<close>

theorem generate_at_most_once:
  "prompts_of (calls (run_gemini lib)) =
     (case vertexai_init lib PROJECT_ID LOCATION of
        Inl e \<Rightarrow> []
      | Inr s \<Rightarrow>
          (case GenerativeModel lib s ''gemini-2.5-pro'' of
             Inl e \<Rightarrow> []
           | Inr m \<Rightarrow> [prompt]))"
  by (simp add: run_gemini_def script_calls split: sum.splits)

theorem generate_at_most_once_witness:
  "prompts_of (calls (run_gemini hello_lib)) = [prompt] \<and>
   prompts_of (calls (run_gemini no_credentials_lib)) = []"
  using generate_at_most_once [of hello_lib] generate_at_most_once [of no_credentials_lib]
  by (simp add: hello_lib_def no_credentials_lib_def)




text \<open>
  C9. The prompt is a fixed literal, not empty, whose first and last characters are the
  newlines of the triple-quoted form. It is submitted as it is: once the model handle
  exists, the library's \<open>generate_content\<close> is applied to the handle and to exactly
  this string, the run is what follows from that one answer, and the call recorded
  carries the same string.
\<close>

theorem prompt_literal:
  "prompt \<noteq> [] \<and> hd prompt = newline \<and> last prompt = newline \<and>
   (\<forall>q. Generate q \<in> set (calls (run_gemini lib)) \<longrightarrow> q = prompt) \<and>
   (\<forall>s m. vertexai_init lib PROJECT_ID LOCATION = Inr s \<and>
          GenerativeModel lib s ''gemini-2.5-pro'' = Inr m \<longrightarrow>
          Generate prompt \<in> set (calls (run_gemini lib)) \<and>
          run_gemini lib =
            (case generate_content lib m prompt of
               Inl e \<Rightarrow>
                 \<lparr>stdout = [],
                  calls = [Init PROJECT_ID LOCATION, SelectModel ''gemini-2.5-pro'',
                           Generate prompt],
                  uncaught = Some e\<rparr>
             | Inr response \<Rightarrow>
                 render lib response
                   \<lparr>stdout = [],
                    calls = [Init PROJECT_ID LOCATION, SelectModel ''gemini-2.5-pro'',
                             Generate prompt],
                    uncaught = None\<rparr>))"
proof -
  have "run_gemini lib =
          (case generate_content lib m prompt of
             Inl e \<Rightarrow>
               \<lparr>stdout = [],
                calls = [Init PROJECT_ID LOCATION, SelectModel ''gemini-2.5-pro'',
                         Generate prompt],
                uncaught = Some e\<rparr>
           | Inr response \<Rightarrow>
               render lib response
                 \<lparr>stdout = [],
                  calls = [Init PROJECT_ID LOCATION, SelectModel ''gemini-2.5-pro'',
                           Generate prompt],
                  uncaught = None\<rparr>)"
    if "vertexai_init lib PROJECT_ID LOCATION = Inr s"
      and "GenerativeModel lib s ''gemini-2.5-pro'' = Inr m" for s m
    using that
    by (cases "generate_content lib m prompt")
      (simp_all add: run_gemini_def script_def proc_ops)
  moreover have "\<forall>q. Generate q \<in> set (calls (run_gemini lib)) \<longrightarrow> q = prompt"
    by (auto simp add: run_gemini_def script_calls split: sum.splits)
  moreover have "Generate prompt \<in> set (calls (run_gemini lib))"
    if "vertexai_init lib PROJECT_ID LOCATION = Inr s"
      and "GenerativeModel lib s ''gemini-2.5-pro'' = Inr m" for s m
    using that by (simp add: run_gemini_def script_calls)
  ultimately show ?thesis using prompt_ends by blast
qed

text \<open>
  With the library that echoes, the output shows what the library received: the literal
  with both its newlines, not the literal trimmed.
\<close>

theorem prompt_literal_witness:
  "prompt \<noteq> [] \<and> hd prompt = newline \<and> last prompt = newline \<and>
   Generate prompt \<in> set (calls (run_gemini echo_lib)) \<and>
   Generate (butlast (tl prompt)) \<notin> set (calls (run_gemini echo_lib)) \<and>
   stdout (run_gemini echo_lib) =
     ''Model Response:'' @ [newline] @ ''---------------'' @ [newline] @ prompt @ [newline] \<and>
   stdout (run_gemini echo_lib) \<noteq>
     ''Model Response:'' @ [newline] @ ''---------------'' @ [newline] @ butlast (tl prompt)
       @ [newline]"
proof -
  have trimmed: "butlast (tl prompt) \<noteq> prompt"
    by (simp add: prompt_def)
  have "run_gemini echo_lib =
      render echo_lib prompt
        \<lparr>stdout = [],
         calls = [Init PROJECT_ID LOCATION, SelectModel ''gemini-2.5-pro'', Generate prompt],
         uncaught = None\<rparr>"
    using prompt_literal [of echo_lib] by (simp add: echo_lib_def hello_lib_def)
  then have out: "stdout (run_gemini echo_lib) =
      ''Model Response:'' @ [newline] @ ''---------------'' @ [newline] @ prompt @ [newline]"
    by (simp add: render_def proc_ops echo_lib_def hello_lib_def)
  have log: "calls (run_gemini echo_lib) =
      [Init PROJECT_ID LOCATION, SelectModel ''gemini-2.5-pro'', Generate prompt]"
    by (simp add: run_gemini_def script_calls echo_lib_def hello_lib_def)
  show ?thesis using trimmed by (simp add: out log prompt_ends)
qed

section \<open>Exceptions and the exit status\<close>

text \<open>
  C5. An exception raised by initialisation, by model selection or by generate is not
  caught: it is the exception that leaves the module, and the exit status is not 0. When
  every call succeeds no exception leaves the module and the exit status is 0.
\<close>

theorem errors_propagate:
  "(vertexai_init lib PROJECT_ID LOCATION = Inl e \<longrightarrow>
      uncaught (run_gemini lib) = Some e \<and> exit_status (run_gemini lib) \<noteq> 0) \<and>
   (vertexai_init lib PROJECT_ID LOCATION = Inr s \<and>
    GenerativeModel lib s ''gemini-2.5-pro'' = Inl e \<longrightarrow>
      uncaught (run_gemini lib) = Some e \<and> exit_status (run_gemini lib) \<noteq> 0) \<and>
   (vertexai_init lib PROJECT_ID LOCATION = Inr s \<and>
    GenerativeModel lib s ''gemini-2.5-pro'' = Inr m \<and>
    generate_content lib m prompt = Inl e \<longrightarrow>
      uncaught (run_gemini lib) = Some e \<and> exit_status (run_gemini lib) \<noteq> 0) \<and>
   (vertexai_init lib PROJECT_ID LOCATION = Inr s \<and>
    GenerativeModel lib s ''gemini-2.5-pro'' = Inr m \<and>
    generate_content lib m prompt = Inr r \<and>
    response_text lib r = Inr t \<longrightarrow>
      uncaught (run_gemini lib) = None \<and> exit_status (run_gemini lib) = 0)"
  by (simp add: run_gemini_def exit_status_def script_init_raises script_select_raises
      script_generate_raises script_returns)

theorem errors_propagate_witness:
  "(uncaught (run_gemini no_credentials_lib) = Some (Exception ''AuthenticationError'') \<and>
    exit_status (run_gemini no_credentials_lib) \<noteq> 0) \<and>
   (uncaught (run_gemini no_model_lib) = Some (Exception ''NotFound'') \<and>
    exit_status (run_gemini no_model_lib) \<noteq> 0) \<and>
   (uncaught (run_gemini unreachable_lib) = Some (Exception ''ServiceUnavailable'') \<and>
    exit_status (run_gemini unreachable_lib) \<noteq> 0) \<and>
   (uncaught (run_gemini hello_lib) = None \<and> exit_status (run_gemini hello_lib) = 0)"
  using
    errors_propagate [of no_credentials_lib "Exception ''AuthenticationError''"]
    errors_propagate [of no_model_lib "Exception ''NotFound''" "()"]
    errors_propagate [of unreachable_lib "Exception ''ServiceUnavailable''" "()" "''gemini-2.5-pro''"]
    errors_propagate [of hello_lib _ "()" "''gemini-2.5-pro''" "''Hello!''" "''Hello!''"]
  by (simp add: no_credentials_lib_def no_model_lib_def unreachable_lib_def hello_lib_def)

section \<open>Two runs in a changing world\<close>

text \<open>
  The world-threaded body is the body of the script: over a library without state it
  computes what \<open>script\<close> computes and leaves the world alone.
\<close>

lemma render_in_stateless: "render_in (stateless lib) response p w = (render lib response p, w)"
  by (cases "response_text lib response") (simp_all add: render_in_def render_def stateless_def)

lemma script_in_stateless:
  "script_in (stateless lib) project location name q w = (script lib project location name q, w)"
proof (cases "vertexai_init lib project location")
  case (Inl e)
  then show ?thesis by (simp add: script_in_def script_def stateless_def)
next
  case init: (Inr s)
  show ?thesis
  proof (cases "GenerativeModel lib s name")
    case (Inl e)
    with init show ?thesis by (simp add: script_in_def script_def stateless_def)
  next
    case model: (Inr m)
    show ?thesis
    proof (cases "generate_content lib m q")
      case (Inl e)
      with init model show ?thesis by (simp add: script_in_def script_def stateless_def)
    next
      case (Inr r)
      have "render_in (stateless lib) r p w = (render lib r p, w)" for p
        by (rule render_in_stateless)
      with Inr init model show ?thesis
        by (simp add: script_in_def script_def) (simp add: stateless_def)
    qed
  qed
qed

text \<open>
  When the answers of the service do not depend on the state of the world, a run from any
  state \<open>w\<close> ends as the script does over the answers read in any state \<open>v\<close>.
\<close>

lemma render_in_answers:
  assumes "\<forall>w w'. fst (text_in svc response w) = fst (text_in svc response w')"
  shows "fst (render_in svc response p w) = render (answers_at svc v) response p"
proof -
  obtain a w' where step: "text_in svc response w = (a, w')"
    by (cases "text_in svc response w")
  have "fst (text_in svc response v) = fst (text_in svc response w)" using assms by blast
  with step have "response_text (answers_at svc v) response = a" by (simp add: answers_at_def)
  with step show ?thesis by (cases a) (simp_all add: render_in_def render_def)
qed

lemma script_in_answers:
  assumes "\<forall>w w'. fst (init_in svc project location w) = fst (init_in svc project location w')"
    and "\<forall>s w w'. fst (model_in svc s name w) = fst (model_in svc s name w')"
    and "\<forall>m w w'. fst (generate_in svc m q w) = fst (generate_in svc m q w')"
    and "\<forall>r w w'. fst (text_in svc r w) = fst (text_in svc r w')"
  shows "fst (script_in svc project location name q w) =
         script (answers_at svc v) project location name q"
proof -
  obtain a w1 where init: "init_in svc project location w = (a, w1)"
    by (cases "init_in svc project location w")
  have "fst (init_in svc project location v) = fst (init_in svc project location w)"
    using assms(1) by blast
  with init have init': "vertexai_init (answers_at svc v) project location = a"
    by (simp add: answers_at_def)
  show ?thesis
  proof (cases a)
    case (Inl e)
    with init init' show ?thesis by (simp add: script_in_def script_def)
  next
    case session: (Inr s)
    obtain b w2 where model: "model_in svc s name w1 = (b, w2)"
      by (cases "model_in svc s name w1")
    have "fst (model_in svc s name v) = fst (model_in svc s name w1)"
      using assms(2) by blast
    with model have model': "GenerativeModel (answers_at svc v) s name = b"
      by (simp add: answers_at_def)
    show ?thesis
    proof (cases b)
      case (Inl e)
      with init init' session model model' show ?thesis
        by (simp add: script_in_def script_def)
    next
      case handle: (Inr m)
      obtain c w3 where gen: "generate_in svc m q w2 = (c, w3)"
        by (cases "generate_in svc m q w2")
      have "fst (generate_in svc m q v) = fst (generate_in svc m q w2)"
        using assms(3) by blast
      with gen have gen': "generate_content (answers_at svc v) m q = c"
        by (simp add: answers_at_def)
      show ?thesis
      proof (cases c)
        case (Inl e)
        with init init' session model model' handle gen gen' show ?thesis
          by (simp add: script_in_def script_def)
      next
        case (Inr r)
        have "fst (render_in svc r p w3) = render (answers_at svc v) r p" for p
          using assms(4) by (simp add: render_in_answers)
        with Inr init init' session model model' handle gen gen' show ?thesis
          by (simp add: script_in_def script_def)
      qed
    qed
  qed
qed

text \<open>
  The hypothesis is needed, and the world does carry state from one run to the next: a
  service that remembers having been asked gives the second run another output.
\<close>

lemma two_runs_of_remembering_service_differ:
  "stdout (fst (two_runs remembering_service PROJECT_ID LOCATION ''gemini-2.5-pro'' prompt 0)) \<noteq>
   stdout (snd (two_runs remembering_service PROJECT_ID LOCATION ''gemini-2.5-pro'' prompt 0))"
  by (simp add: two_runs_def script_in_def render_in_def remembering_service_def
      counting_service_def proc_ops)

text \<open>
  C7. For any four inputs and a deterministic service (one whose answer to each request
  of the run is the same in every state of the world), two complete runs, the second
  started in the world the first has left, end alike: the same output text, and the same
  calls and exception. The world between the two runs may differ from the one before the
  first; nothing of it reaches the output.
\<close>

theorem two_runs_identical:
  assumes "\<forall>w w'. fst (init_in svc project location w) = fst (init_in svc project location w')"
    and "\<forall>s w w'. fst (model_in svc s name w) = fst (model_in svc s name w')"
    and "\<forall>m w w'. fst (generate_in svc m q w) = fst (generate_in svc m q w')"
    and "\<forall>r w w'. fst (text_in svc r w) = fst (text_in svc r w')"
  shows "fst (two_runs svc project location name q w0) =
         snd (two_runs svc project location name q w0) \<and>
         stdout (fst (two_runs svc project location name q w0)) =
         stdout (snd (two_runs svc project location name q w0))"
proof -
  have "fst (script_in svc project location name q w) =
        fst (script_in svc project location name q w0)" for w
    using script_in_answers [OF assms, of _ w0] by simp
  then show ?thesis
    by (simp add: two_runs_def split: prod.splits) (metis fst_conv)
qed

text \<open>
  The counting service has served three requests when the second run starts, and both
  runs print the same three lines.
\<close>

theorem two_runs_identical_witness:
  "snd (script_in counting_service PROJECT_ID LOCATION ''gemini-2.5-pro'' prompt 0) = 3 \<and>
   fst (two_runs counting_service PROJECT_ID LOCATION ''gemini-2.5-pro'' prompt 0) =
   snd (two_runs counting_service PROJECT_ID LOCATION ''gemini-2.5-pro'' prompt 0) \<and>
   stdout (fst (two_runs counting_service PROJECT_ID LOCATION ''gemini-2.5-pro'' prompt 0)) =
     ''Model Response:'' @ [newline] @ ''---------------'' @ [newline] @ ''Hello!'' @ [newline] \<and>
   stdout (snd (two_runs counting_service PROJECT_ID LOCATION ''gemini-2.5-pro'' prompt 0)) =
     ''Model Response:'' @ [newline] @ ''---------------'' @ [newline] @ ''Hello!'' @ [newline]"
proof -
  have run: "script_in counting_service PROJECT_ID LOCATION ''gemini-2.5-pro'' prompt 0 =
      (\<lparr>stdout = ''Model Response:'' @ [newline] @ ''---------------'' @ [newline]
                  @ ''Hello!'' @ [newline],
        calls = [Init PROJECT_ID LOCATION, SelectModel ''gemini-2.5-pro'', Generate prompt],
        uncaught = None\<rparr>, 3)"
    by (simp add: script_in_def render_in_def counting_service_def proc_ops)
  have first: "fst (two_runs counting_service PROJECT_ID LOCATION ''gemini-2.5-pro'' prompt 0) =
      fst (script_in counting_service PROJECT_ID LOCATION ''gemini-2.5-pro'' prompt 0)"
    by (simp add: two_runs_def split: prod.splits)
  have same: "snd (two_runs counting_service PROJECT_ID LOCATION ''gemini-2.5-pro'' prompt 0) =
      fst (two_runs counting_service PROJECT_ID LOCATION ''gemini-2.5-pro'' prompt 0)"
    using two_runs_identical
      [of counting_service PROJECT_ID LOCATION "''gemini-2.5-pro''" prompt 0]
    by (simp add: counting_service_def)
  show ?thesis by (simp add: same first run)
qed

end
